theory Spec2Isabelle
  imports Main "HOL-Library.Word"
begin

unbundle bit_operations_syntax

section \<open>Domain objects of the voting protocol (domainobjs/ts/index.ts)\<close>

text \<open>
  The TypeScript classes \<open>PrivKey\<close>, \<open>PubKey\<close>, \<open>Message\<close>, \<open>StateLeaf\<close> and
  \<open>Command\<close> are embedded as records with one constructor function each.
  A \<open>BigInt\<close> is an \<open>int\<close> (unbounded, two's complement for the bitwise
  operators, as in JavaScript). A failed \<open>assert\<close> and a thrown \<open>TypeError\<close> or
  \<open>SyntaxError\<close> are values on the left of a sum. \<open>Unmodelled\<close> is no
  exception of the source: it marks the one place where the source goes on with
  \<open>undefined\<close> in a position typed \<open>BigInt\<close>, which the records below cannot
  hold.

  The source imports its cryptography from the separate package
  \<open>maci-crypto\<close>. What the source takes from it is passed to the model as a
  parameter: the modulus \<open>SNARK_FIELD_SIZE\<close> (always called \<open>q\<close>), the hash
  functions \<open>hash4\<close> and \<open>hash5\<close>, \<open>sign\<close>, the symmetric cipher
  \<open>encrypt\<close>/\<open>decrypt\<close> and the point packing \<open>packPubKey\<close>/\<open>unpackPubKey\<close>.
\<close>

datatype error = AssertionError | TypeError | SyntaxError | Unmodelled

subsection \<open>PrivKey and PubKey\<close>

record PrivKey =
  rawPrivKey :: int

record PubKey =
  rawPubKey :: "int list"

text \<open>
  The constructor of \<open>PubKey\<close>: three assertions in the order of the source. The
  comparison with the modulus is the only test on a coordinate.
\<close>

definition PubKey_new :: "int \<Rightarrow> int list \<Rightarrow> error + PubKey" where
  "PubKey_new q raw =
     (if length raw \<noteq> 2 then Inl AssertionError
      else if \<not> raw ! 0 < q then Inl AssertionError
      else if \<not> raw ! 1 < q then Inl AssertionError
      else Inr \<lparr>rawPubKey = raw\<rparr>)"

text \<open>A key that the constructor has built has two coordinates, which \<open>asArray\<close> reads.\<close>

definition PubKey_asArray :: "PubKey \<Rightarrow> int list" where
  "PubKey_asArray k = [rawPubKey k ! 0, rawPubKey k ! 1]"

subsection \<open>Command\<close>

record Command =
  stateIndex :: int
  newPubKey :: PubKey
  voteOptionIndex :: int
  newVoteWeight :: int
  nonce :: int
  pollId :: int
  salt :: int

definition limit50Bits :: int where
  "limit50Bits = 2 ^ 50"

text \<open>
  The constructor of \<open>Command\<close>. The default value of the last argument, a fresh
  random salt, is the caller's business here: the salt is always passed.
\<close>

definition Command_new ::
  "int \<Rightarrow> PubKey \<Rightarrow> int \<Rightarrow> int \<Rightarrow> int \<Rightarrow> int \<Rightarrow> int \<Rightarrow> error + Command" where
  "Command_new si pk vo nw nc pid sl =
     (if \<not> limit50Bits \<ge> si then Inl AssertionError
      else if \<not> limit50Bits \<ge> vo then Inl AssertionError
      else if \<not> limit50Bits \<ge> nw then Inl AssertionError
      else if \<not> limit50Bits \<ge> nc then Inl AssertionError
      else if \<not> limit50Bits \<ge> pid then Inl AssertionError
      else Inr \<lparr>stateIndex = si, newPubKey = pk, voteOptionIndex = vo,
                newVoteWeight = nw, nonce = nc, pollId = pid, salt = sl\<rparr>)"

text \<open>The packed value \<open>p\<close> of \<open>Command.asArray\<close>: a sum of shifted fields.\<close>

definition Command_packed :: "Command \<Rightarrow> int" where
  "Command_packed c =
     stateIndex c
     + push_bit 50 (voteOptionIndex c)
     + push_bit 100 (newVoteWeight c)
     + push_bit 150 (nonce c)
     + push_bit 200 (pollId c)"

definition Command_asArray :: "Command \<Rightarrow> error + int list" where
  "Command_asArray c =
     (let a = [Command_packed c] @ PubKey_asArray (newPubKey c) @ [salt c]
      in if length a = 4 then Inr a else Inl AssertionError)"

definition Command_hash :: "(int list \<Rightarrow> int) \<Rightarrow> Command \<Rightarrow> error + int" where
  "Command_hash hash4 c =
     (case Command_asArray c of Inl e \<Rightarrow> Inl e | Inr a \<Rightarrow> Inr (hash4 a))"

text \<open>
  Indexing the \<open>PubKey\<close> object itself, as \<open>Command.equals\<close> does with
  \<open>newPubKey[0]\<close> and \<open>newPubKey[1]\<close>: the class declares \<open>rawPubKey\<close> and its
  methods and no numeric property, so the read gives \<open>undefined\<close>. The operator
  \<open>==\<close> holds between \<open>undefined\<close> and \<open>undefined\<close> and compares two
  \<open>BigInt\<close>s by value.
\<close>

datatype jsval = Undefined | BigIntVal int

definition PubKey_index :: "PubKey \<Rightarrow> nat \<Rightarrow> jsval" where
  "PubKey_index k i = Undefined"

fun loose_eq :: "jsval \<Rightarrow> jsval \<Rightarrow> bool" where
  "loose_eq Undefined Undefined = True"
| "loose_eq (BigIntVal a) (BigIntVal b) = (a = b)"
| "loose_eq _ _ = False"

definition Command_equals :: "Command \<Rightarrow> Command \<Rightarrow> bool" where
  "Command_equals c d =
     (loose_eq (BigIntVal (stateIndex c)) (BigIntVal (stateIndex d)) \<and>
      loose_eq (PubKey_index (newPubKey c) 0) (PubKey_index (newPubKey d) 0) \<and>
      loose_eq (PubKey_index (newPubKey c) 1) (PubKey_index (newPubKey d) 1) \<and>
      loose_eq (BigIntVal (voteOptionIndex c)) (BigIntVal (voteOptionIndex d)) \<and>
      loose_eq (BigIntVal (newVoteWeight c)) (BigIntVal (newVoteWeight d)) \<and>
      loose_eq (BigIntVal (nonce c)) (BigIntVal (nonce d)) \<and>
      loose_eq (BigIntVal (pollId c)) (BigIntVal (pollId d)) \<and>
      loose_eq (BigIntVal (salt c)) (BigIntVal (salt d)))"

subsection \<open>Signature and Message\<close>

record Signature =
  R8 :: "int list"
  S :: int

definition Command_sign ::
  "(int \<Rightarrow> int \<Rightarrow> Signature) \<Rightarrow> (int list \<Rightarrow> int) \<Rightarrow> Command \<Rightarrow> PrivKey
     \<Rightarrow> error + Signature" where
  "Command_sign sign hash4 c privKey =
     (case Command_hash hash4 c of
        Inl e \<Rightarrow> Inl e
      | Inr h \<Rightarrow> Inr (sign (rawPrivKey privKey) h))"

text \<open>
  A \<open>Message\<close> has the two fields of the cipher's \<open>Ciphertext\<close>, and the source
  hands a \<open>Message\<close> to \<open>decrypt\<close> where a \<open>Ciphertext\<close> is expected: one record
  serves for both.
\<close>

record Message =
  iv :: int
  data :: "int list"

definition DATA_LENGTH :: nat where
  "DATA_LENGTH = 7"

definition Message_new :: "int \<Rightarrow> int list \<Rightarrow> error + Message" where
  "Message_new i d =
     (if length d = DATA_LENGTH then Inr \<lparr>iv = i, data = d\<rparr> else Inl AssertionError)"

definition Message_hash ::
  "(int list \<Rightarrow> int) \<Rightarrow> (int list \<Rightarrow> int) \<Rightarrow> Message \<Rightarrow> int" where
  "Message_hash hash4 hash5 m =
     (let p = data m
      in hash4 [hash5 [iv m, p ! 0, p ! 1, p ! 2, p ! 3], p ! 4, p ! 5, p ! 6])"

subsection \<open>Encrypting and decrypting a command\<close>

text \<open>The local \<open>plaintext\<close> of \<open>Command.encrypt\<close>, with its assertion.\<close>

definition Command_plaintext :: "Command \<Rightarrow> Signature \<Rightarrow> error + int list" where
  "Command_plaintext c sg =
     (case Command_asArray c of
        Inl e \<Rightarrow> Inl e
      | Inr a \<Rightarrow>
          (let plaintext = a @ [R8 sg ! 0, R8 sg ! 1, S sg]
           in if length plaintext = 7 then Inr plaintext else Inl AssertionError))"

definition Command_encrypt ::
  "(int list \<Rightarrow> int \<Rightarrow> Message) \<Rightarrow> Command \<Rightarrow> Signature \<Rightarrow> int \<Rightarrow> error + Message" where
  "Command_encrypt encrypt c sg sharedKey =
     (case Command_plaintext c sg of
        Inl e \<Rightarrow> Inl e
      | Inr plaintext \<Rightarrow>
          (let ciphertext = encrypt plaintext sharedKey
           in if length (data ciphertext) \<noteq> length plaintext then Inl AssertionError
              else Message_new (iv ciphertext) (data ciphertext)))"

text \<open>
  The inner function \<open>extract\<close> of \<open>Command.decrypt\<close>, as the source computes it
  (the name alone is a command of Isabelle, hence the suffix).
\<close>

definition extract_bits :: "int \<Rightarrow> nat \<Rightarrow> int" where
  "extract_bits val pos = drop_bit pos (push_bit pos (push_bit 50 1 - 1) AND val)"

text \<open>
  \<open>Command.decrypt\<close>. The plaintext that the cipher returns is a list; the source
  reads its elements 0 to 6. Reading past the end gives \<open>undefined\<close>: at index 0
  \<open>BigInt(undefined)\<close> throws a \<open>TypeError\<close>, at index 1 or 2 the assertions of the
  \<open>PubKey\<close> constructor fail. With three to six elements the source would carry
  \<open>undefined\<close> on in place of a \<open>BigInt\<close> (as the salt, which then takes its
  random default, or in the signature); the model stops there with \<open>Unmodelled\<close>.
\<close>

definition Command_decrypt ::
  "int \<Rightarrow> (Message \<Rightarrow> int \<Rightarrow> int list) \<Rightarrow> Message \<Rightarrow> int
     \<Rightarrow> error + (Command \<times> Signature)" where
  "Command_decrypt q decrypt message sharedKey =
     (let decrypted = decrypt message sharedKey
      in if length decrypted < 1 then Inl TypeError
         else if length decrypted < 3 then Inl AssertionError
         else
           (let p = decrypted ! 0
            in case PubKey_new q [decrypted ! 1, decrypted ! 2] of
                 Inl e \<Rightarrow> Inl e
               | Inr pk \<Rightarrow>
                   if length decrypted < 7 then Inl Unmodelled
                   else
                     (case Command_new (extract_bits p 0) pk (extract_bits p 50) (extract_bits p 100)
                             (extract_bits p 150) (extract_bits p 200) (decrypted ! 3) of
                        Inl e \<Rightarrow> Inl e
                      | Inr command \<Rightarrow>
                          Inr (command,
                               \<lparr>R8 = [decrypted ! 4, decrypted ! 5], S = decrypted ! 6\<rparr>))))"

subsection \<open>Strings, hexadecimal digits and buffers\<close>

text \<open>
  A string is a list of characters with codes below 256. \<open>s.startsWith(p)\<close> and
  \<open>s.slice(n)\<close> (with \<open>n\<close> not negative) are \<open>startsWith\<close> and \<open>drop\<close>.
\<close>

definition SERIALIZED_PRIV_KEY_PREFIX :: string where
  "SERIALIZED_PRIV_KEY_PREFIX = ''macisk.''"

definition SERIALIZED_PUB_KEY_PREFIX :: string where
  "SERIALIZED_PUB_KEY_PREFIX = ''macipk.''"

definition startsWith :: "string \<Rightarrow> string \<Rightarrow> bool" where
  "startsWith s p = (take (length p) s = p)"

text \<open>The value of a hexadecimal digit, in either case, and the lower-case digit of a value.\<close>

definition hexval :: "char \<Rightarrow> nat option" where
  "hexval ch =
     (let n = (of_char ch :: nat)
      in if 48 \<le> n \<and> n \<le> 57 then Some (n - 48)
         else if 97 \<le> n \<and> n \<le> 102 then Some (n - 87)
         else if 65 \<le> n \<and> n \<le> 70 then Some (n - 55)
         else None)"

definition hexdigit :: "nat \<Rightarrow> char" where
  "hexdigit d = (if d < 10 then char_of (48 + d) else char_of (87 + d))"

text \<open>
  \<open>BigInt('0x' + x)\<close>. The built-in function trims white space at both ends of
  its argument (the argument starts with \<open>0\<close>, so only the end of \<open>x\<close> matters),
  then wants \<open>0x\<close> followed by one hexadecimal digit at least and nothing else;
  anything else is a \<open>SyntaxError\<close>.
\<close>

definition StrWhiteSpaceChar :: "char \<Rightarrow> bool" where
  "StrWhiteSpaceChar ch = ((of_char ch :: nat) \<in> {9, 10, 11, 12, 13, 32, 160})"

definition trimEnd :: "string \<Rightarrow> string" where
  "trimEnd s = rev (dropWhile StrWhiteSpaceChar (rev s))"

fun hex_digits_value :: "nat \<Rightarrow> string \<Rightarrow> nat option" where
  "hex_digits_value acc [] = Some acc"
| "hex_digits_value acc (ch # cs) =
     (case hexval ch of
        None \<Rightarrow> None
      | Some d \<Rightarrow> hex_digits_value (16 * acc + d) cs)"

definition BigInt_0x :: "string \<Rightarrow> error + int" where
  "BigInt_0x x =
     (let t = trimEnd x
      in if t = [] then Inl SyntaxError
         else case hex_digits_value 0 t of
                None \<Rightarrow> Inl SyntaxError
              | Some v \<Rightarrow> Inr (int v))"

text \<open>\<open>n.toString(16)\<close> of a \<open>BigInt\<close>: lower-case digits, a minus sign before a negative value.\<close>

fun hex_of_nat :: "nat \<Rightarrow> string" where
  "hex_of_nat n =
     (if n < 16 then [hexdigit n] else hex_of_nat (n div 16) @ [hexdigit (n mod 16)])"

declare hex_of_nat.simps [simp del]

definition BigInt_toString16 :: "int \<Rightarrow> string" where
  "BigInt_toString16 n =
     (if n < 0 then CHR ''-'' # hex_of_nat (nat (- n)) else hex_of_nat (nat n))"

text \<open>
  A \<open>Buffer\<close> is a list of bytes. \<open>buf.toString('hex')\<close> writes two digits per
  byte; \<open>Buffer.from(s, 'hex')\<close> reads pairs of digits and stops at the first
  pair that is not hexadecimal or not complete.
\<close>

type_synonym Buffer = "8 word list"

definition Buffer_toString_hex :: "Buffer \<Rightarrow> string" where
  "Buffer_toString_hex buf =
     concat (map (\<lambda>b. [hexdigit (unat b div 16), hexdigit (unat b mod 16)]) buf)"

fun Buffer_from_hex :: "string \<Rightarrow> Buffer" where
  "Buffer_from_hex (a # b # rest) =
     (case hexval a of
        None \<Rightarrow> []
      | Some h \<Rightarrow>
          (case hexval b of
             None \<Rightarrow> []
           | Some l \<Rightarrow> of_nat (16 * h + l) # Buffer_from_hex rest))"
| "Buffer_from_hex _ = []"

subsection \<open>Serialized keys\<close>

definition PrivKey_serialize :: "PrivKey \<Rightarrow> string" where
  "PrivKey_serialize k = SERIALIZED_PRIV_KEY_PREFIX @ BigInt_toString16 (rawPrivKey k)"

definition PrivKey_unserialize :: "string \<Rightarrow> error + PrivKey" where
  "PrivKey_unserialize s =
     (let x = drop (length SERIALIZED_PRIV_KEY_PREFIX) s
      in case BigInt_0x x of
           Inl e \<Rightarrow> Inl e
         | Inr v \<Rightarrow> Inr \<lparr>rawPrivKey = v\<rparr>)"

definition isValidSerializedPrivKey :: "int \<Rightarrow> string \<Rightarrow> bool" where
  "isValidSerializedPrivKey q s =
     (let correctPrefix = startsWith s SERIALIZED_PRIV_KEY_PREFIX;
          x = drop (length SERIALIZED_PRIV_KEY_PREFIX) s;
          validValue = (case BigInt_0x x of Inl e \<Rightarrow> False | Inr v \<Rightarrow> v < q)
      in correctPrefix \<and> validValue)"

text \<open>
  \<open>packPubKey\<close> gives a \<open>Buffer\<close>; \<open>unpackPubKey\<close> gives a point, or \<open>null\<close>
  (here \<open>None\<close>) for bytes that are no packed point, and then the \<open>PubKey\<close>
  constructor throws on reading \<open>null.length\<close>.
\<close>

definition PubKey_serialize :: "(int list \<Rightarrow> Buffer) \<Rightarrow> PubKey \<Rightarrow> string" where
  "PubKey_serialize packPubKey k =
     (if rawPubKey k ! 0 = 0 \<and> rawPubKey k ! 1 = 0 then SERIALIZED_PUB_KEY_PREFIX @ ''z''
      else (let packed = Buffer_toString_hex (packPubKey (rawPubKey k))
            in SERIALIZED_PUB_KEY_PREFIX @ packed))"

definition PubKey_unserialize ::
  "int \<Rightarrow> (Buffer \<Rightarrow> int list option) \<Rightarrow> string \<Rightarrow> error + PubKey" where
  "PubKey_unserialize q unpackPubKey s =
     (if s = SERIALIZED_PUB_KEY_PREFIX @ ''z'' then PubKey_new q [0, 0]
      else (let len = length SERIALIZED_PUB_KEY_PREFIX;
                packed = Buffer_from_hex (drop len s)
            in case unpackPubKey packed of
                 None \<Rightarrow> Inl TypeError
               | Some raw \<Rightarrow> PubKey_new q raw))"

subsection \<open>StateLeaf\<close>

text \<open>
  The values that \<open>JSON.parse\<close> gives, as far as \<open>StateLeaf.unserialize\<close> reads
  them: \<open>null\<close>, a string or an object (numbers, booleans and arrays are left
  out). Reading a property of \<open>null\<close> throws; a property that is not there is
  \<open>undefined\<close> (\<open>None\<close>); the members of a parsed object have distinct names. \<open>JSON.stringify\<close>, \<open>JSON.parse\<close> and the two
  functions of the package \<open>base64url\<close> are parameters.
\<close>

datatype json = JNull | JString string | JObject "(string \<times> json) list"

fun json_get :: "json \<Rightarrow> string \<Rightarrow> error + json option" where
  "json_get JNull key = Inl TypeError"
| "json_get (JString s) key = Inr None"
| "json_get (JObject members) key = Inr (map_of members key)"

text \<open>\<open>PubKey.unserialize\<close> on a value that need not be a string: \<open>s.slice\<close> must exist.\<close>

fun PubKey_unserialize_value ::
  "int \<Rightarrow> (Buffer \<Rightarrow> int list option) \<Rightarrow> json option \<Rightarrow> error + PubKey" where
  "PubKey_unserialize_value q unpackPubKey (Some (JString s)) = PubKey_unserialize q unpackPubKey s"
| "PubKey_unserialize_value q unpackPubKey v = Inl TypeError"

text \<open>The string that \<open>'0x' + v\<close> appends for a value \<open>v\<close>.\<close>

fun js_toString :: "json option \<Rightarrow> string" where
  "js_toString None = ''undefined''"
| "js_toString (Some JNull) = ''null''"
| "js_toString (Some (JString s)) = s"
| "js_toString (Some (JObject members)) = ''[object Object]''"

record StateLeaf =
  pubKey :: PubKey
  voiceCreditBalance :: int

definition StateLeaf_serialize ::
  "(int list \<Rightarrow> Buffer) \<Rightarrow> (json \<Rightarrow> string) \<Rightarrow> (string \<Rightarrow> string) \<Rightarrow> StateLeaf \<Rightarrow> string" where
  "StateLeaf_serialize packPubKey stringify base64url leaf =
     (let j = JObject
                [(''pubKey'', JString (PubKey_serialize packPubKey (pubKey leaf))),
                 (''voiceCreditBalance'', JString (BigInt_toString16 (voiceCreditBalance leaf)))]
      in base64url (stringify j))"

definition StateLeaf_unserialize ::
  "int \<Rightarrow> (Buffer \<Rightarrow> int list option) \<Rightarrow> (string \<Rightarrow> json option) \<Rightarrow> (string \<Rightarrow> string)
     \<Rightarrow> string \<Rightarrow> error + StateLeaf" where
  "StateLeaf_unserialize q unpackPubKey parse base64url_decode serialized =
     (case parse (base64url_decode serialized) of
        None \<Rightarrow> Inl SyntaxError
      | Some j \<Rightarrow>
          (case json_get j ''pubKey'' of
             Inl e \<Rightarrow> Inl e
           | Inr pv \<Rightarrow>
               (case PubKey_unserialize_value q unpackPubKey pv of
                  Inl e \<Rightarrow> Inl e
                | Inr pk \<Rightarrow>
                    (case json_get j ''voiceCreditBalance'' of
                       Inl e \<Rightarrow> Inl e
                     | Inr bv \<Rightarrow>
                         (case BigInt_0x (js_toString bv) of
                            Inl e \<Rightarrow> Inl e
                          | Inr v \<Rightarrow> Inr \<lparr>pubKey = pk, voiceCreditBalance = v\<rparr>)))))"

subsection \<open>The range of a packed field\<close>

text \<open>A value that fits in 50 bits: an unsigned integer below \<open>2 ^ 50\<close>.\<close>

definition fits50 :: "int \<Rightarrow> bool" where
  "fits50 x = (0 \<le> x \<and> x < 2 ^ 50)"

subsection \<open>Instances of the imported functions\<close>

text \<open>
  Concrete functions to run the model on: a cipher that adds the key to every
  element, a signer and a hash. They only serve to evaluate the operations above
  on examples.
\<close>

definition example_encrypt :: "int list \<Rightarrow> int \<Rightarrow> Message" where
  "example_encrypt plaintext k = \<lparr>iv = sum_list plaintext, data = map (\<lambda>e. e + k) plaintext\<rparr>"

definition example_decrypt :: "Message \<Rightarrow> int \<Rightarrow> int list" where
  "example_decrypt ciphertext k = map (\<lambda>e. e - k) (data ciphertext)"

definition example_hash :: "int list \<Rightarrow> int" where
  "example_hash xs = sum_list xs"

definition example_sign :: "int \<Rightarrow> int \<Rightarrow> Signature" where
  "example_sign sk h = \<lparr>R8 = [sk, h], S = sk + h\<rparr>"

text \<open>A packing of points with coordinates below 256, one byte each.\<close>

definition example_packPubKey :: "int list \<Rightarrow> Buffer" where
  "example_packPubKey raw = map word_of_int raw"

definition example_unpackPubKey :: "Buffer \<Rightarrow> int list option" where
  "example_unpackPubKey buf = (if length buf = 2 then Some (map uint buf) else None)"

text \<open>
  A JSON printer and parser for objects whose members are strings without
  escapes, and the encoding of base64url (the base64 alphabet ending in \<open>-\<close> and
  \<open>_\<close>, no padding).
\<close>

definition quoted :: "string \<Rightarrow> string" where
  "quoted s = CHR 0x22 # s @ [CHR 0x22]"

fun example_member :: "string \<times> json \<Rightarrow> string" where
  "example_member (key, JString s) = quoted key @ '':'' @ quoted s"
| "example_member (key, JNull) = quoted key @ '':null''"
| "example_member (key, JObject members) = quoted key @ '':{}''"

fun join_commas :: "string list \<Rightarrow> string" where
  "join_commas [] = []"
| "join_commas [x] = x"
| "join_commas (x # y # ys) = x @ '','' @ join_commas (y # ys)"

fun example_stringify :: "json \<Rightarrow> string" where
  "example_stringify JNull = ''null''"
| "example_stringify (JString s) = quoted s"
| "example_stringify (JObject members) = ''{'' @ join_commas (map example_member members) @ ''}''"

definition read_quoted :: "string \<Rightarrow> (string \<times> string) option" where
  "read_quoted s =
     (case s of
        [] \<Rightarrow> None
      | ch # cs \<Rightarrow>
          if ch \<noteq> CHR 0x22 then None
          else (case dropWhile (\<lambda>x. x \<noteq> CHR 0x22) cs of
                  [] \<Rightarrow> None
                | _ # rest \<Rightarrow> Some (takeWhile (\<lambda>x. x \<noteq> CHR 0x22) cs, rest)))"

fun read_members :: "nat \<Rightarrow> string \<Rightarrow> (string \<times> json) list option" where
  "read_members 0 s = None"
| "read_members (Suc fuel) s =
     (case read_quoted s of
        None \<Rightarrow> None
      | Some (key, r1) \<Rightarrow>
          (case r1 of
             [] \<Rightarrow> None
           | c1 # r2 \<Rightarrow>
               if c1 \<noteq> CHR '':'' then None
               else (case read_quoted r2 of
                       None \<Rightarrow> None
                     | Some (v, r3) \<Rightarrow>
                         if r3 = ''}'' then Some [(key, JString v)]
                         else (case r3 of
                                 [] \<Rightarrow> None
                               | c3 # r4 \<Rightarrow>
                                   if c3 \<noteq> CHR '','' then None
                                   else map_option (\<lambda>ms. (key, JString v) # ms)
                                          (read_members fuel r4)))))"

definition example_parse :: "string \<Rightarrow> json option" where
  "example_parse s =
     (case s of
        [] \<Rightarrow> None
      | ch # cs \<Rightarrow>
          if ch \<noteq> CHR ''{'' then None
          else map_option JObject (read_members (length cs) cs))"

definition base64url_alphabet :: string where
  "base64url_alphabet = ''ABCDEFGHIJKLMNOPQRSTUVWXYZabcdefghijklmnopqrstuvwxyz0123456789-_''"

fun sextets_of_bytes :: "nat list \<Rightarrow> nat list" where
  "sextets_of_bytes (a # b # c # rest) =
     [a div 4, (a mod 4) * 16 + b div 16, (b mod 16) * 4 + c div 64, c mod 64]
       @ sextets_of_bytes rest"
| "sextets_of_bytes [a, b] = [a div 4, (a mod 4) * 16 + b div 16, (b mod 16) * 4]"
| "sextets_of_bytes [a] = [a div 4, (a mod 4) * 16]"
| "sextets_of_bytes [] = []"

fun bytes_of_sextets :: "nat list \<Rightarrow> nat list" where
  "bytes_of_sextets (a # b # c # d # rest) =
     [a * 4 + b div 16, (b mod 16) * 16 + c div 4, (c mod 4) * 64 + d]
       @ bytes_of_sextets rest"
| "bytes_of_sextets [a, b, c] = [a * 4 + b div 16, (b mod 16) * 16 + c div 4]"
| "bytes_of_sextets [a, b] = [a * 4 + b div 16]"
| "bytes_of_sextets _ = []"

definition example_base64url :: "string \<Rightarrow> string" where
  "example_base64url s = map (\<lambda>n. base64url_alphabet ! n) (sextets_of_bytes (map of_char s))"

definition example_base64url_decode :: "string \<Rightarrow> string" where
  "example_base64url_decode s =
     map char_of
       (bytes_of_sextets (map (\<lambda>ch. length (takeWhile (\<lambda>x. x \<noteq> ch) base64url_alphabet)) s))"

text \<open>The order of the scalar field of the curve BN254, the usual value of the modulus.\<close>

definition example_field_size :: int where
  "example_field_size =
     21888242871839275222246405745257275088548364400416034343698204186575808495617"

text \<open>A key, a command with the values of the end-to-end scenario, its signature, a leaf.\<close>

definition example_pubkey :: PubKey where
  "example_pubkey = \<lparr>rawPubKey = [5, 7]\<rparr>"

definition example_command :: Command where
  "example_command =
     \<lparr>stateIndex = 1, newPubKey = example_pubkey, voteOptionIndex = 0,
      newVoteWeight = 9, nonce = 1, pollId = 0, salt = 42\<rparr>"

definition example_signature :: Signature where
  "example_signature = example_sign 3 (example_hash [Command_packed example_command, 5, 7, 42])"

definition example_leaf :: StateLeaf where
  "example_leaf = \<lparr>pubKey = example_pubkey, voiceCreditBalance = 100\<rparr>"

section \<open>Auxiliary facts\<close>

subsection \<open>Arithmetic of the packing\<close>

lemma add_push_bit_eq_or:
  fixes a b :: int
  assumes "0 \<le> a" "a < 2 ^ n"
  shows "a + push_bit n b = a OR push_bit n b"
proof -
  have "take_bit n a = a"
    using assms by (simp add: take_bit_int_eq_self)
  then have h: "bit a k \<Longrightarrow> k < n" for k
    by (metis bit_take_bit_iff)
  show ?thesis
    by (intro disjunctive_add_eq_or bit_eqI) (auto simp: bit_simps dest!: h)
qed

lemma take_bit_add_push_bit:
  fixes a b :: int
  assumes "0 \<le> a" "a < 2 ^ n"
  shows "take_bit n (a + push_bit n b) = a"
  using assms by (simp add: take_bit_eq_mod push_bit_eq_mult)

lemma drop_bit_add_push_bit:
  fixes a b :: int
  assumes "0 \<le> a" "a < 2 ^ n"
  shows "drop_bit n (a + push_bit n b) = b"
  using assms by (simp add: drop_bit_eq_div push_bit_eq_mult)

text \<open>What the source's \<open>extract\<close> computes: the 50 bits of \<open>val\<close> from position \<open>pos\<close> on.\<close>

lemma extract_bits_eq: "extract_bits v pos = take_bit 50 (drop_bit pos v)"
proof -
  have m: "(push_bit 50 1 - 1 :: int) = mask 50"
    by (simp only: mask_eq_exp_minus_1 push_bit_of_1)
  show ?thesis
    unfolding extract_bits_def m
    by (rule bit_eqI) (auto simp: bit_simps)
qed

lemma extract_bits_shift_mask: "extract_bits v pos = drop_bit pos v AND (2 ^ 50 - 1)"
  by (simp add: extract_bits_eq take_bit_eq_mask mask_eq_exp_minus_1)

lemma extract_bits_fits50: "fits50 (extract_bits v pos)"
  using take_bit_int_less_exp [of 50 "drop_bit pos v"]
  by (simp add: extract_bits_eq fits50_def)

lemma Command_packed_nested:
  "Command_packed c =
     stateIndex c + push_bit 50 (voteOptionIndex c + push_bit 50 (newVoteWeight c
       + push_bit 50 (nonce c + push_bit 50 (pollId c))))"
  by (simp add: Command_packed_def push_bit_add)

lemma take_bit_fits50: "fits50 x \<Longrightarrow> take_bit 50 x = x"
  by (simp add: fits50_def take_bit_int_eq_self)

lemma extract_bits_packed:
  assumes "fits50 (stateIndex c)" "fits50 (voteOptionIndex c)" "fits50 (newVoteWeight c)"
    "fits50 (nonce c)" "fits50 (pollId c)"
  shows "extract_bits (Command_packed c) 0 = stateIndex c"
    and "extract_bits (Command_packed c) 50 = voteOptionIndex c"
    and "extract_bits (Command_packed c) 100 = newVoteWeight c"
    and "extract_bits (Command_packed c) 150 = nonce c"
    and "extract_bits (Command_packed c) 200 = pollId c"
proof -
  let ?t3 = "nonce c + push_bit 50 (pollId c)"
  let ?t2 = "newVoteWeight c + push_bit 50 ?t3"
  let ?t1 = "voteOptionIndex c + push_bit 50 ?t2"
  have p: "Command_packed c = stateIndex c + push_bit 50 ?t1"
    by (rule Command_packed_nested)
  have b: "0 \<le> stateIndex c" "stateIndex c < 2 ^ 50"
    "0 \<le> voteOptionIndex c" "voteOptionIndex c < 2 ^ 50"
    "0 \<le> newVoteWeight c" "newVoteWeight c < 2 ^ 50"
    "0 \<le> nonce c" "nonce c < 2 ^ 50"
    using assms by (simp_all add: fits50_def)
  have d1: "drop_bit 50 (Command_packed c) = ?t1"
    unfolding p by (rule drop_bit_add_push_bit) (rule b)+
  have d2: "drop_bit 100 (Command_packed c) = ?t2"
  proof -
    have "drop_bit 100 (Command_packed c) = drop_bit 50 (drop_bit 50 (Command_packed c))"
      by simp
    also have "\<dots> = ?t2"
      unfolding d1 by (rule drop_bit_add_push_bit) (rule b)+
    finally show ?thesis .
  qed
  have d3: "drop_bit 150 (Command_packed c) = ?t3"
  proof -
    have "drop_bit 150 (Command_packed c) = drop_bit 50 (drop_bit 100 (Command_packed c))"
      by simp
    also have "\<dots> = ?t3"
      unfolding d2 by (rule drop_bit_add_push_bit) (rule b)+
    finally show ?thesis .
  qed
  have d4: "drop_bit 200 (Command_packed c) = pollId c"
  proof -
    have "drop_bit 200 (Command_packed c) = drop_bit 50 (drop_bit 150 (Command_packed c))"
      by simp
    also have "\<dots> = pollId c"
      unfolding d3 by (rule drop_bit_add_push_bit) (rule b)+
    finally show ?thesis .
  qed
  show "extract_bits (Command_packed c) 0 = stateIndex c"
    unfolding extract_bits_eq p using b by (simp add: take_bit_add_push_bit)
  show "extract_bits (Command_packed c) 50 = voteOptionIndex c"
    unfolding extract_bits_eq d1 using b by (simp add: take_bit_add_push_bit)
  show "extract_bits (Command_packed c) 100 = newVoteWeight c"
    unfolding extract_bits_eq d2 using b by (simp add: take_bit_add_push_bit)
  show "extract_bits (Command_packed c) 150 = nonce c"
    unfolding extract_bits_eq d3 using b by (simp add: take_bit_add_push_bit)
  show "extract_bits (Command_packed c) 200 = pollId c"
    unfolding extract_bits_eq d4 using assms(5) by (simp add: take_bit_fits50)
qed

lemma Command_packed_or:
  assumes "fits50 (stateIndex c)" "fits50 (voteOptionIndex c)" "fits50 (newVoteWeight c)"
    "fits50 (nonce c)"
  shows "Command_packed c =
     stateIndex c OR push_bit 50 (voteOptionIndex c) OR push_bit 100 (newVoteWeight c)
       OR push_bit 150 (nonce c) OR push_bit 200 (pollId c)"
proof -
  have b: "0 \<le> stateIndex c" "stateIndex c < 2 ^ 50"
    "0 \<le> voteOptionIndex c" "voteOptionIndex c < 2 ^ 50"
    "0 \<le> newVoteWeight c" "newVoteWeight c < 2 ^ 50"
    "0 \<le> nonce c" "nonce c < 2 ^ 50"
    using assms by (simp_all add: fits50_def)
  have "nonce c + push_bit 50 (pollId c) = nonce c OR push_bit 50 (pollId c)"
    by (rule add_push_bit_eq_or) (rule b)+
  moreover have "newVoteWeight c + push_bit 50 t = newVoteWeight c OR push_bit 50 t" for t
    by (rule add_push_bit_eq_or) (rule b)+
  moreover have "voteOptionIndex c + push_bit 50 t = voteOptionIndex c OR push_bit 50 t" for t
    by (rule add_push_bit_eq_or) (rule b)+
  moreover have "stateIndex c + push_bit 50 t = stateIndex c OR push_bit 50 t" for t
    by (rule add_push_bit_eq_or) (rule b)+
  ultimately show ?thesis
    by (simp only: Command_packed_nested) (simp add: push_bit_or or.assoc)
qed

subsection \<open>Constructors and arrays\<close>

lemma length2E:
  assumes "length xs = 2"
  obtains x y where "xs = [x, y]"
  using assms by (auto simp: length_Suc_conv numeral_2_eq_2)

lemma PubKey_new_Inr:
  "PubKey_new q raw = Inr k \<longleftrightarrow>
     length raw = 2 \<and> raw ! 0 < q \<and> raw ! 1 < q \<and> k = \<lparr>rawPubKey = raw\<rparr>"
  by (auto simp: PubKey_new_def)

lemma Command_new_Inr:
  "Command_new si pk vo nw nc pid sl = Inr c \<longleftrightarrow>
     si \<le> 2 ^ 50 \<and> vo \<le> 2 ^ 50 \<and> nw \<le> 2 ^ 50 \<and> nc \<le> 2 ^ 50 \<and> pid \<le> 2 ^ 50 \<and>
     c = \<lparr>stateIndex = si, newPubKey = pk, voteOptionIndex = vo,
          newVoteWeight = nw, nonce = nc, pollId = pid, salt = sl\<rparr>"
  by (auto simp: Command_new_def limit50Bits_def)

lemma Command_new_fits50:
  assumes "fits50 si" "fits50 vo" "fits50 nw" "fits50 nc" "fits50 pid"
  shows "Command_new si pk vo nw nc pid sl =
     Inr \<lparr>stateIndex = si, newPubKey = pk, voteOptionIndex = vo,
          newVoteWeight = nw, nonce = nc, pollId = pid, salt = sl\<rparr>"
  using assms by (simp add: Command_new_def limit50Bits_def fits50_def)

lemma Command_new_above_limit:
  assumes "2 ^ 50 < si \<or> 2 ^ 50 < vo \<or> 2 ^ 50 < nw \<or> 2 ^ 50 < nc \<or> 2 ^ 50 < pid"
  shows "Command_new si pk vo nw nc pid sl = Inl AssertionError"
  using assms by (auto simp: Command_new_def limit50Bits_def)

text \<open>
  The constructor has no lower bound: it accepts a negative field, and
  \<open>extract\<close>, which masks 50 bits, does not read a negative value back.
\<close>

lemma Command_new_negative_field:
  "Command_new (- 1) \<lparr>rawPubKey = [0, 0]\<rparr> 0 0 0 0 0 =
     Inr \<lparr>stateIndex = - 1, newPubKey = \<lparr>rawPubKey = [0, 0]\<rparr>, voteOptionIndex = 0,
          newVoteWeight = 0, nonce = 0, pollId = 0, salt = 0\<rparr> \<and>
   \<not> fits50 (- 1) \<and>
   extract_bits (Command_packed \<lparr>stateIndex = - 1, newPubKey = \<lparr>rawPubKey = [0, 0]\<rparr>,
      voteOptionIndex = 0, newVoteWeight = 0, nonce = 0, pollId = 0, salt = 0\<rparr>) 0 = 2 ^ 50 - 1"
  by (simp add: Command_new_def limit50Bits_def fits50_def Command_packed_def extract_bits_eq
      take_bit_eq_mod)

lemma Command_asArray_eq:
  "Command_asArray c =
     Inr [Command_packed c, rawPubKey (newPubKey c) ! 0, rawPubKey (newPubKey c) ! 1, salt c]"
  by (simp add: Command_asArray_def PubKey_asArray_def)

lemma Command_plaintext_eq:
  "Command_plaintext c sg =
     Inr [Command_packed c, rawPubKey (newPubKey c) ! 0, rawPubKey (newPubKey c) ! 1, salt c,
          R8 sg ! 0, R8 sg ! 1, S sg]"
  by (simp add: Command_plaintext_def Command_asArray_eq)

lemma Command_decrypt_seven:
  assumes "decrypt m k = [d0, d1, d2, d3, d4, d5, d6]"
  shows "Command_decrypt q decrypt m k =
    (case PubKey_new q [d1, d2] of
       Inl e \<Rightarrow> Inl e
     | Inr pk \<Rightarrow>
         (case Command_new (extract_bits d0 0) pk (extract_bits d0 50) (extract_bits d0 100)
                 (extract_bits d0 150) (extract_bits d0 200) d3 of
            Inl e \<Rightarrow> Inl e
          | Inr c \<Rightarrow> Inr (c, \<lparr>R8 = [d4, d5], S = d6\<rparr>)))"
  by (simp add: Command_decrypt_def assms Let_def split: sum.split)

lemma example_cipher_length: "length (data (example_encrypt pt k)) = length pt"
  by (simp add: example_encrypt_def)

lemma example_cipher_inverse: "example_decrypt (example_encrypt pt k) k = pt"
  by (simp add: example_encrypt_def example_decrypt_def map_idI)

lemma example_command_fits50:
  "fits50 (stateIndex example_command)" "fits50 (voteOptionIndex example_command)"
  "fits50 (newVoteWeight example_command)" "fits50 (nonce example_command)"
  "fits50 (pollId example_command)"
  by (simp_all add: example_command_def fits50_def)

lemma example_pubkey_new: "PubKey_new example_field_size [5, 7] = Inr example_pubkey"
  by (simp add: PubKey_new_def example_field_size_def example_pubkey_def)

subsection \<open>Hexadecimal strings and buffers\<close>

lemma hexval_hexdigit: "d < 16 \<Longrightarrow> hexval (hexdigit d) = Some d"
  by (auto simp: hexval_def hexdigit_def Let_def)

lemma hexdigit_not_space: "d < 16 \<Longrightarrow> \<not> StrWhiteSpaceChar (hexdigit d)"
  by (auto simp: StrWhiteSpaceChar_def hexdigit_def)

lemma hex_digits_value_snoc:
  "hex_digits_value acc (cs @ [ch]) =
     (case hex_digits_value acc cs of
        None \<Rightarrow> None
      | Some v \<Rightarrow> (case hexval ch of None \<Rightarrow> None | Some d \<Rightarrow> Some (16 * v + d)))"
  by (induction cs arbitrary: acc) (auto split: option.splits)

lemma hex_digits_value_hex_of_nat: "hex_digits_value 0 (hex_of_nat n) = Some n"
proof (induction n rule: hex_of_nat.induct)
  case (1 n)
  show ?case
  proof (cases "n < 16")
    case True
    then show ?thesis
      by (simp add: hex_of_nat.simps [of n] hexval_hexdigit)
  next
    case False
    with 1 have "hex_digits_value 0 (hex_of_nat (n div 16)) = Some (n div 16)"
      by simp
    with False show ?thesis
      by (simp add: hex_of_nat.simps [of n] hex_digits_value_snoc hexval_hexdigit)
  qed
qed

lemma hex_of_nat_last:
  "hex_of_nat n \<noteq> [] \<and> last (hex_of_nat n) = hexdigit (n mod 16)"
  by (cases "n < 16") (simp_all add: hex_of_nat.simps [of n])

lemma trimEnd_id: "s \<noteq> [] \<Longrightarrow> \<not> StrWhiteSpaceChar (last s) \<Longrightarrow> trimEnd s = s"
  by (cases s rule: rev_cases) (simp_all add: trimEnd_def)

lemma BigInt_0x_hex_of_nat: "BigInt_0x (hex_of_nat n) = Inr (int n)"
proof -
  have "trimEnd (hex_of_nat n) = hex_of_nat n"
    using hex_of_nat_last [of n] by (intro trimEnd_id) (simp_all add: hexdigit_not_space)
  then show ?thesis
    using hex_of_nat_last [of n]
    by (simp add: BigInt_0x_def hex_digits_value_hex_of_nat)
qed

lemma BigInt_0x_toString16: "0 \<le> n \<Longrightarrow> BigInt_0x (BigInt_toString16 n) = Inr n"
  by (simp add: BigInt_toString16_def BigInt_0x_hex_of_nat)


lemma Buffer_from_hex_toString: "Buffer_from_hex (Buffer_toString_hex buf) = buf"
proof (induction buf)
  case Nil
  then show ?case by (simp add: Buffer_toString_hex_def)
next
  case (Cons b buf)
  have "unat b div 16 < 16"
    using unsigned_less [of b] by (simp add: div_less_iff_less_mult)
  with Cons show ?case
    by (simp add: Buffer_toString_hex_def hexval_hexdigit)
qed

lemma Buffer_toString_hex_not_z: "Buffer_toString_hex buf \<noteq> ''z''"
  by (cases buf) (simp_all add: Buffer_toString_hex_def)

lemma PubKey_unserialize_serialize:
  assumes "PubKey_new q raw = Inr k"
    and "(raw ! 0 = 0 \<and> raw ! 1 = 0) \<or> unpackPubKey (packPubKey raw) = Some raw"
  shows "PubKey_unserialize q unpackPubKey (PubKey_serialize packPubKey k) = Inr k"
proof -
  from assms(1) have l: "length raw = 2" and k: "rawPubKey k = raw"
    by (auto simp: PubKey_new_Inr)
  from l obtain x y where raw: "raw = [x, y]"
    by (auto elim: length2E)
  show ?thesis
  proof (cases "x = 0 \<and> y = 0")
    case True
    with assms(1) show ?thesis
      by (simp add: PubKey_serialize_def PubKey_unserialize_def k raw)
  next
    case False
    with assms(2) have u: "unpackPubKey (packPubKey raw) = Some raw"
      by (auto simp: raw)
    from False have "PubKey_serialize packPubKey k =
        SERIALIZED_PUB_KEY_PREFIX @ Buffer_toString_hex (packPubKey raw)"
      by (auto simp: PubKey_serialize_def k raw)
    then show ?thesis
      using assms(1) u
      by (simp add: PubKey_unserialize_def Buffer_toString_hex_not_z Buffer_from_hex_toString
          SERIALIZED_PUB_KEY_PREFIX_def)
  qed
qed

lemma example_pack_inverse: "example_unpackPubKey (example_packPubKey [5, 7]) = Some [5, 7]"
  by (simp add: example_unpackPubKey_def example_packPubKey_def)

section \<open>Properties of the domain objects\<close>

text \<open>
  C1. A command whose five packed fields fit in 50 bits (unsigned, below \<open>2 ^ 50\<close>)
  is signed and encrypted; decrypting the message with the same shared key gives
  back the same command, in all seven fields, and the same signature. The five
  reads \<open>extract(p, pos)\<close> at \<open>pos\<close> 0, 50, 100, 150 and 200 of the packed
  element \<open>p\<close> invert the packing of \<open>Command.asArray\<close>, and \<open>extract(val, pos)\<close>
  is \<open>(val >> pos) & (2^50 - 1)\<close>. The cipher is the imported one: what is
  asked of it is that, on this plaintext, it keeps the length and \<open>decrypt\<close>
  undoes \<open>encrypt\<close>. The signature is any signature with two coordinates in
  \<open>R8\<close>, the one that \<open>sign\<close> returns among them.
\<close>

theorem Command_decrypt_encrypt:
  assumes pk: "PubKey_new q raw = Inr pk"
    and c: "Command_new si pk vo nw nc pid sl = Inr c"
    and b: "fits50 si" "fits50 vo" "fits50 nw" "fits50 nc" "fits50 pid"
    and sg: "length (R8 sg) = 2"
    and pt: "Command_plaintext c sg = Inr pt"
    and len: "length (data (encrypt pt k)) = length pt"
    and inv: "decrypt (encrypt pt k) k = pt"
  shows "(\<exists>m. Command_encrypt encrypt c sg k = Inr m \<and>
              Command_decrypt q decrypt m k = Inr (c, sg)) \<and>
         extract_bits (pt ! 0) 0 = si \<and> extract_bits (pt ! 0) 50 = vo \<and>
         extract_bits (pt ! 0) 100 = nw \<and> extract_bits (pt ! 0) 150 = nc \<and>
         extract_bits (pt ! 0) 200 = pid \<and>
         extract_bits v pos = drop_bit pos v AND (2 ^ 50 - 1)"
proof -
  have cdef: "c = \<lparr>stateIndex = si, newPubKey = pk, voteOptionIndex = vo,
          newVoteWeight = nw, nonce = nc, pollId = pid, salt = sl\<rparr>"
    using c by (simp add: Command_new_Inr)
  have "length raw = 2" and pkraw: "rawPubKey pk = raw"
    using pk by (auto simp: PubKey_new_Inr)
  then obtain x y where raw: "raw = [x, y]"
    by (auto elim: length2E)
  from sg obtain r0 r1 where r8: "R8 sg = [r0, r1]"
    by (auto elim: length2E)
  have sgdef: "sg = \<lparr>R8 = [r0, r1], S = S sg\<rparr>"
    using r8 by (cases sg) simp
  have ptdef: "pt = [Command_packed c, x, y, sl, r0, r1, S sg]"
    using pt by (simp add: Command_plaintext_eq cdef pkraw raw r8)
  have bc: "fits50 (stateIndex c)" "fits50 (voteOptionIndex c)" "fits50 (newVoteWeight c)"
    "fits50 (nonce c)" "fits50 (pollId c)"
    using b by (simp_all add: cdef)
  have ex: "extract_bits (Command_packed c) 0 = si" "extract_bits (Command_packed c) 50 = vo"
    "extract_bits (Command_packed c) 100 = nw" "extract_bits (Command_packed c) 150 = nc"
    "extract_bits (Command_packed c) 200 = pid"
    using extract_bits_packed [OF bc] by (simp_all add: cdef)
  have enc: "Command_encrypt encrypt c sg k = Inr (encrypt pt k)"
    using len by (simp add: Command_encrypt_def pt Message_new_def DATA_LENGTH_def ptdef Let_def)
  have "decrypt (encrypt pt k) k = [Command_packed c, x, y, sl, r0, r1, S sg]"
    using inv ptdef by simp
  then have "Command_decrypt q decrypt (encrypt pt k) k =
      (case PubKey_new q [x, y] of
         Inl e \<Rightarrow> Inl e
       | Inr pk \<Rightarrow>
           (case Command_new si pk vo nw nc pid sl of
              Inl e \<Rightarrow> Inl e
            | Inr c \<Rightarrow> Inr (c, \<lparr>R8 = [r0, r1], S = S sg\<rparr>)))"
    by (simp only: Command_decrypt_seven ex)
  also have "\<dots> = Inr (c, sg)"
    using pk c sgdef by (simp add: raw)
  finally have dec: "Command_decrypt q decrypt (encrypt pt k) k = Inr (c, sg)" .
  have "pt ! 0 = Command_packed c"
    by (simp add: ptdef)
  with enc dec ex show ?thesis
    by (simp add: extract_bits_shift_mask)
qed

theorem Command_decrypt_encrypt_witness:
  "Command_sign example_sign example_hash example_command \<lparr>rawPrivKey = 3\<rparr>
     = Inr example_signature \<and>
   (\<exists>m. Command_encrypt example_encrypt example_command example_signature 11 = Inr m \<and>
        Command_decrypt example_field_size example_decrypt m 11
          = Inr (example_command, example_signature)) \<and>
   extract_bits (Command_packed example_command) 0 = 1 \<and>
   extract_bits (Command_packed example_command) 50 = 0 \<and>
   extract_bits (Command_packed example_command) 100 = 9 \<and>
   extract_bits (Command_packed example_command) 150 = 1 \<and>
   extract_bits (Command_packed example_command) 200 = 0"
proof -
  let ?pt = "[Command_packed example_command, 5, 7, 42,
              R8 example_signature ! 0, R8 example_signature ! 1, S example_signature]"
  have s: "Command_sign example_sign example_hash example_command \<lparr>rawPrivKey = 3\<rparr>
     = Inr example_signature"
    by (simp add: Command_sign_def Command_hash_def Command_asArray_eq example_signature_def)
      (simp add: example_command_def example_pubkey_def)
  have h2: "Command_new 1 example_pubkey 0 9 1 0 42 = Inr example_command"
    by (simp add: Command_new_def limit50Bits_def example_command_def)
  have h3: "fits50 1" "fits50 0" "fits50 9"
    by (simp_all add: fits50_def)
  have h4: "length (R8 example_signature) = 2"
    by (simp add: example_signature_def example_sign_def)
  have h5: "Command_plaintext example_command example_signature = Inr ?pt"
    by (simp add: Command_plaintext_eq) (simp add: example_command_def example_pubkey_def)
  note r = Command_decrypt_encrypt [where encrypt = example_encrypt and decrypt = example_decrypt
      and k = 11 and pt = "?pt" and v = 0 and pos = 0,
      OF example_pubkey_new h2 h3(1) h3(2) h3(3) h3(1) h3(2) h4 h5
      example_cipher_length example_cipher_inverse, unfolded nth_Cons_0]
  from r s show ?thesis
    by blast
qed

text \<open>
  C2. For a command whose five packed fields fit in 50 bits, \<open>Command.asArray\<close>
  returns exactly four elements: the packed value
  \<open>stateIndex | voteOptionIndex << 50 | newVoteWeight << 100 | nonce << 150 | pollId << 200\<close>,
  which on these fields is the sum of shifted fields that the source computes,
  then the two coordinates of \<open>newPubKey\<close> and the salt.
\<close>

theorem Command_asArray_packed:
  assumes "fits50 (stateIndex c)" "fits50 (voteOptionIndex c)" "fits50 (newVoteWeight c)"
    "fits50 (nonce c)" "fits50 (pollId c)"
  shows "(\<exists>a. Command_asArray c = Inr a \<and> length a = 4) \<and>
    Command_asArray c =
      Inr [stateIndex c OR push_bit 50 (voteOptionIndex c) OR push_bit 100 (newVoteWeight c)
             OR push_bit 150 (nonce c) OR push_bit 200 (pollId c),
           rawPubKey (newPubKey c) ! 0, rawPubKey (newPubKey c) ! 1, salt c] \<and>
    stateIndex c OR push_bit 50 (voteOptionIndex c) OR push_bit 100 (newVoteWeight c)
      OR push_bit 150 (nonce c) OR push_bit 200 (pollId c)
    = stateIndex c + push_bit 50 (voteOptionIndex c) + push_bit 100 (newVoteWeight c)
      + push_bit 150 (nonce c) + push_bit 200 (pollId c)"
proof -
  have "Command_packed c =
      stateIndex c OR push_bit 50 (voteOptionIndex c) OR push_bit 100 (newVoteWeight c)
        OR push_bit 150 (nonce c) OR push_bit 200 (pollId c)"
    using assms(1-4) by (rule Command_packed_or)
  then show ?thesis
    by (simp add: Command_asArray_eq) (simp add: Command_packed_def)
qed

theorem Command_asArray_packed_witness:
  "Command_asArray example_command =
     Inr [stateIndex example_command OR push_bit 50 (voteOptionIndex example_command)
            OR push_bit 100 (newVoteWeight example_command)
            OR push_bit 150 (nonce example_command) OR push_bit 200 (pollId example_command),
          rawPubKey (newPubKey example_command) ! 0,
          rawPubKey (newPubKey example_command) ! 1, salt example_command]"
  using Command_asArray_packed [OF example_command_fits50] by simp

text \<open>
  C3. The constructor of \<open>Command\<close> is to refuse a field that does not fit in 50
  bits. It compares with \<open>limit50Bits >= field\<close>, so the value \<open>2 ^ 50\<close> itself,
  which needs 51 bits, is accepted; packed, it runs into the next field, and
  \<open>extract\<close> reads \<open>stateIndex\<close> 0 and \<open>voteOptionIndex\<close> 1 from it. (Every field
  above \<open>2 ^ 50\<close> is refused and every field below is accepted:
  \<open>Command_new_above_limit\<close>, \<open>Command_new_fits50\<close>.)
\<close>

theorem Command_new_accepts_limit:
  "Command_new (2 ^ 50) \<lparr>rawPubKey = [0, 0]\<rparr> 0 0 0 0 0 =
     Inr \<lparr>stateIndex = 2 ^ 50, newPubKey = \<lparr>rawPubKey = [0, 0]\<rparr>, voteOptionIndex = 0,
          newVoteWeight = 0, nonce = 0, pollId = 0, salt = 0\<rparr> \<and>
   \<not> fits50 (2 ^ 50) \<and>
   extract_bits (Command_packed \<lparr>stateIndex = 2 ^ 50, newPubKey = \<lparr>rawPubKey = [0, 0]\<rparr>,
      voteOptionIndex = 0, newVoteWeight = 0, nonce = 0, pollId = 0, salt = 0\<rparr>) 0 = 0 \<and>
   extract_bits (Command_packed \<lparr>stateIndex = 2 ^ 50, newPubKey = \<lparr>rawPubKey = [0, 0]\<rparr>,
      voteOptionIndex = 0, newVoteWeight = 0, nonce = 0, pollId = 0, salt = 0\<rparr>) 50 = 1"
  by (simp add: Command_new_def limit50Bits_def fits50_def Command_packed_def extract_bits_eq
      take_bit_eq_mod drop_bit_eq_div)




text \<open>
  They disagree as well on a scalar that is not in the field: the serialization
  of the modulus itself has the prefix and parses, and the predicate is false.
\<close>

lemma isValidSerializedPrivKey_out_of_field:
  "0 \<le> q \<Longrightarrow>
   PrivKey_unserialize (PrivKey_serialize \<lparr>rawPrivKey = q\<rparr>) = Inr \<lparr>rawPrivKey = q\<rparr> \<and>
   \<not> isValidSerializedPrivKey q (PrivKey_serialize \<lparr>rawPrivKey = q\<rparr>)"
  by (simp add: PrivKey_unserialize_def PrivKey_serialize_def isValidSerializedPrivKey_def
      BigInt_0x_toString16)

text \<open>
  C5. \<open>Message.hash\<close> of a message with initialization vector \<open>iv\<close> and data
  \<open>[p0, \<dots>, p6]\<close> is \<open>hash4([hash5([iv, p0, p1, p2, p3]), p4, p5, p6])\<close>: one
  hash over \<open>iv\<close> and the first four data elements, then a second hash over that
  digest and the last three. Every constructed message has such data.
\<close>

theorem Message_hash_two_stage:
  assumes "Message_new i d = Inr m"
  shows "\<exists>p0 p1 p2 p3 p4 p5 p6.
           data m = [p0, p1, p2, p3, p4, p5, p6] \<and> iv m = i \<and>
           Message_hash hash4 hash5 m = hash4 [hash5 [i, p0, p1, p2, p3], p4, p5, p6]"
proof -
  from assms have l: "length d = 7" and m: "m = \<lparr>iv = i, data = d\<rparr>"
    by (auto simp: Message_new_def DATA_LENGTH_def split: if_splits)
  from l obtain p0 p1 p2 p3 p4 p5 p6 where d: "d = [p0, p1, p2, p3, p4, p5, p6]"
    by (auto simp: length_Suc_conv eval_nat_numeral)
  show ?thesis
    by (simp add: m d Message_hash_def)
qed

theorem Message_hash_two_stage_witness:
  "Message_new 8 [1, 2, 3, 4, 5, 6, 7] = Inr \<lparr>iv = 8, data = [1, 2, 3, 4, 5, 6, 7]\<rparr> \<and>
   Message_hash example_hash example_hash \<lparr>iv = 8, data = [1, 2, 3, 4, 5, 6, 7]\<rparr>
     = example_hash [example_hash [8, 1, 2, 3, 4], 5, 6, 7]"
proof -
  have h: "Message_new 8 [1, 2, 3, 4, 5, 6, 7] = Inr \<lparr>iv = 8, data = [1, 2, 3, 4, 5, 6, 7]\<rparr>"
    by (simp add: Message_new_def DATA_LENGTH_def)
  from Message_hash_two_stage [OF h, of example_hash example_hash] h
  show ?thesis
    by auto
qed

text \<open>
  C6. The constructor of \<open>Message\<close> fails unless the data has exactly 7 elements.
  \<open>Command.encrypt\<close> builds a plaintext of 7 elements, the 4 of \<open>asArray\<close>
  followed by \<open>R8[0]\<close>, \<open>R8[1]\<close> and \<open>S\<close> of the signature; every message it
  returns has 7 data elements, and it returns the cipher's output as a message
  whenever the cipher gives back as many elements as it was given.
\<close>

theorem Command_encrypt_seven:
  "((\<exists>m. Message_new i d = Inr m) \<longleftrightarrow> length d = 7) \<and>
   (length d \<noteq> 7 \<longrightarrow> Message_new i d = Inl AssertionError) \<and>
   (\<exists>a. Command_asArray c = Inr a \<and> length a = 4 \<and>
        Command_plaintext c sg = Inr (a @ [R8 sg ! 0, R8 sg ! 1, S sg]) \<and>
        length (a @ [R8 sg ! 0, R8 sg ! 1, S sg]) = 7 \<and>
        (length (data (encrypt (a @ [R8 sg ! 0, R8 sg ! 1, S sg]) k)) = 7 \<longrightarrow>
           Command_encrypt encrypt c sg k = Inr (encrypt (a @ [R8 sg ! 0, R8 sg ! 1, S sg]) k))) \<and>
   (Command_encrypt encrypt c sg k = Inr m \<longrightarrow> length (data m) = 7)"
  by (auto simp: Message_new_def DATA_LENGTH_def Command_asArray_eq Command_plaintext_eq
      Command_encrypt_def Let_def split: if_splits)

theorem Command_encrypt_seven_witness:
  "Message_new 8 [1, 2, 3] = Inl AssertionError \<and>
   (\<exists>m. Command_encrypt example_encrypt example_command example_signature 11 = Inr m \<and>
        length (data m) = 7)"
proof -
  let ?pt = "[Command_packed example_command, rawPubKey (newPubKey example_command) ! 0,
              rawPubKey (newPubKey example_command) ! 1, salt example_command]
             @ [R8 example_signature ! 0, R8 example_signature ! 1, S example_signature]"
  note r = Command_encrypt_seven [where i = 8 and d = "[1, 2, 3]" and c = example_command
      and sg = example_signature and encrypt = example_encrypt and k = 11
      and m = "example_encrypt ?pt 11"]
  have l: "length (data (example_encrypt ?pt 11)) = 7"
    by (simp add: example_cipher_length)
  have n: "length [1, 2, 3 :: int] \<noteq> 7"
    by simp
  from r l n show ?thesis
    by (auto simp: Command_asArray_eq)
qed

text \<open>
  C7. The blank key \<open>[0, 0]\<close> serializes to the prefix followed by the sentinel
  \<open>z\<close>, which is no hexadecimal rendering of a buffer; unserializing that
  string gives the blank key; and for every key \<open>k\<close> that the constructor
  accepts, blank or a point on which \<open>unpackPubKey\<close> undoes \<open>packPubKey\<close>,
  \<open>PubKey.unserialize(k.serialize())\<close> is a key with the coordinates of \<open>k\<close>.
\<close>

theorem PubKey_serialize_roundtrip:
  assumes "PubKey_new q [0, 0] = Inr blank"
    and "PubKey_new q raw = Inr k"
    and "(raw ! 0 = 0 \<and> raw ! 1 = 0) \<or> unpackPubKey (packPubKey raw) = Some raw"
  shows "PubKey_serialize packPubKey blank = SERIALIZED_PUB_KEY_PREFIX @ ''z'' \<and>
    Buffer_toString_hex buf \<noteq> ''z'' \<and>
    PubKey_unserialize q unpackPubKey (SERIALIZED_PUB_KEY_PREFIX @ ''z'') = Inr blank \<and>
    rawPubKey blank = [0, 0] \<and>
    PubKey_unserialize q unpackPubKey (PubKey_serialize packPubKey k) = Inr k \<and>
    rawPubKey k = raw"
proof -
  from assms(1) have b: "rawPubKey blank = [0, 0]"
    by (auto simp: PubKey_new_Inr)
  then have "PubKey_serialize packPubKey blank = SERIALIZED_PUB_KEY_PREFIX @ ''z''"
    by (simp add: PubKey_serialize_def)
  moreover have "PubKey_unserialize q unpackPubKey (SERIALIZED_PUB_KEY_PREFIX @ ''z'') = Inr blank"
    using assms(1) by (simp add: PubKey_unserialize_def)
  moreover have "PubKey_unserialize q unpackPubKey (PubKey_serialize packPubKey k) = Inr k"
    using assms(2,3) by (rule PubKey_unserialize_serialize)
  moreover have "rawPubKey k = raw"
    using assms(2) by (auto simp: PubKey_new_Inr)
  ultimately show ?thesis
    using b by (simp add: Buffer_toString_hex_not_z)
qed

theorem PubKey_serialize_roundtrip_witness:
  "PubKey_serialize example_packPubKey \<lparr>rawPubKey = [0, 0]\<rparr> = ''macipk.z'' \<and>
   PubKey_unserialize example_field_size example_unpackPubKey ''macipk.z''
     = Inr \<lparr>rawPubKey = [0, 0]\<rparr> \<and>
   PubKey_unserialize example_field_size example_unpackPubKey
     (PubKey_serialize example_packPubKey example_pubkey) = Inr example_pubkey"
proof -
  have h1: "PubKey_new example_field_size [0, 0] = Inr \<lparr>rawPubKey = [0, 0]\<rparr>"
    by (simp add: PubKey_new_def example_field_size_def)
  have h3: "([5, 7] ! 0 = (0 :: int) \<and> [5, 7] ! 1 = (0 :: int)) \<or>
      example_unpackPubKey (example_packPubKey [5, 7]) = Some [5, 7]"
    using example_pack_inverse by simp
  from PubKey_serialize_roundtrip [where packPubKey = example_packPubKey
      and unpackPubKey = example_unpackPubKey and buf = "[]", OF h1 example_pubkey_new h3]
  show ?thesis
    by (simp add: SERIALIZED_PUB_KEY_PREFIX_def)
qed

text \<open>
  C8. The constructor of \<open>PubKey\<close> succeeds exactly on a raw key of two
  coordinates, each below the modulus; with another length, or with a
  coordinate that is not below the modulus, the assertion fails. The key keeps
  the raw coordinates.
\<close>

theorem PubKey_new_succeeds_iff:
  "((\<exists>k. PubKey_new q raw = Inr k) \<longleftrightarrow> length raw = 2 \<and> raw ! 0 < q \<and> raw ! 1 < q) \<and>
   (PubKey_new q raw = Inl AssertionError \<longleftrightarrow>
      length raw \<noteq> 2 \<or> q \<le> raw ! 0 \<or> q \<le> raw ! 1) \<and>
   (PubKey_new q raw = Inr k \<longrightarrow> rawPubKey k = raw)"
  by (auto simp: PubKey_new_def)

theorem PubKey_new_succeeds_iff_witness:
  "PubKey_new example_field_size [5, 7] = Inr example_pubkey \<and>
   rawPubKey example_pubkey = [5, 7] \<and>
   PubKey_new example_field_size [5, example_field_size] = Inl AssertionError \<and>
   PubKey_new example_field_size [5, 7, 9] = Inl AssertionError"
proof -
  note a = PubKey_new_succeeds_iff [of example_field_size "[5, 7]" example_pubkey]
  note b = PubKey_new_succeeds_iff [of example_field_size "[5, example_field_size]"]
  note c = PubKey_new_succeeds_iff [of example_field_size "[5, 7, 9]"]
  from a b c example_pubkey_new show ?thesis
    by simp
qed

text \<open>
  C9. For a leaf whose key the constructor accepts, blank or a point on which
  \<open>unpackPubKey\<close> undoes \<open>packPubKey\<close>, and whose balance is not negative,
  \<open>serialize\<close> is the base64url encoding of the JSON text of the object with
  the members \<open>pubKey\<close>, the serialized key, and \<open>voiceCreditBalance\<close>, the
  balance in hexadecimal; and \<open>StateLeaf.unserialize\<close> of it is a leaf with the
  same key and balance. Of the JSON functions and of base64url, it is asked that
  decoding undoes encoding on this object and on its text.
\<close>

theorem StateLeaf_serialize_roundtrip:
  assumes "PubKey_new q raw = Inr (pubKey leaf)"
    and "(raw ! 0 = 0 \<and> raw ! 1 = 0) \<or> unpackPubKey (packPubKey raw) = Some raw"
    and "0 \<le> voiceCreditBalance leaf"
    and "j = JObject [(''pubKey'', JString (PubKey_serialize packPubKey (pubKey leaf))),
                     (''voiceCreditBalance'', JString (hex_of_nat (nat (voiceCreditBalance leaf))))]"
    and "parse (stringify j) = Some j"
    and "base64url_decode (base64url (stringify j)) = stringify j"
  shows "StateLeaf_serialize packPubKey stringify base64url leaf = base64url (stringify j) \<and>
    StateLeaf_unserialize q unpackPubKey parse base64url_decode
      (StateLeaf_serialize packPubKey stringify base64url leaf) = Inr leaf"
proof -
  have h: "BigInt_toString16 (voiceCreditBalance leaf) = hex_of_nat (nat (voiceCreditBalance leaf))"
    using assms(3) by (simp add: BigInt_toString16_def)
  have s: "StateLeaf_serialize packPubKey stringify base64url leaf = base64url (stringify j)"
    by (simp add: StateLeaf_serialize_def h assms(4))
  have p: "PubKey_unserialize q unpackPubKey (PubKey_serialize packPubKey (pubKey leaf))
      = Inr (pubKey leaf)"
    using assms(1,2) by (rule PubKey_unserialize_serialize)
  have v: "BigInt_0x (hex_of_nat (nat (voiceCreditBalance leaf))) = Inr (voiceCreditBalance leaf)"
    using assms(3) by (simp add: BigInt_0x_hex_of_nat)
  have "StateLeaf_unserialize q unpackPubKey parse base64url_decode (base64url (stringify j))
      = Inr leaf"
    unfolding StateLeaf_unserialize_def assms(6) assms(5)
    by (simp add: assms(4) p v)
  with s show ?thesis
    by simp
qed

theorem StateLeaf_serialize_roundtrip_witness:
  "StateLeaf_serialize example_packPubKey example_stringify example_base64url example_leaf
     = ''eyJwdWJLZXkiOiJtYWNpcGsuMDUwNyIsInZvaWNlQ3JlZGl0QmFsYW5jZSI6IjY0In0'' \<and>
   StateLeaf_unserialize example_field_size example_unpackPubKey example_parse
     example_base64url_decode
     (StateLeaf_serialize example_packPubKey example_stringify example_base64url example_leaf)
     = Inr example_leaf"
proof -
  let ?j = "JObject [(''pubKey'', JString (PubKey_serialize example_packPubKey (pubKey example_leaf))),
      (''voiceCreditBalance'', JString (hex_of_nat (nat (voiceCreditBalance example_leaf))))]"
  have h1: "PubKey_new example_field_size [5, 7] = Inr (pubKey example_leaf)"
    using example_pubkey_new by (simp add: example_leaf_def)
  have h2: "([5, 7] ! 0 = (0 :: int) \<and> [5, 7] ! 1 = (0 :: int)) \<or>
      example_unpackPubKey (example_packPubKey [5, 7]) = Some [5, 7]"
    using example_pack_inverse by simp
  have h3: "0 \<le> voiceCreditBalance example_leaf"
    by (simp add: example_leaf_def)
  have h5: "example_parse (example_stringify ?j) = Some ?j"
    by code_simp
  have h6: "example_base64url_decode (example_base64url (example_stringify ?j))
      = example_stringify ?j"
    by code_simp
  have e: "example_base64url (example_stringify ?j)
      = ''eyJwdWJLZXkiOiJtYWNpcGsuMDUwNyIsInZvaWNlQ3JlZGl0QmFsYW5jZSI6IjY0In0''"
    by code_simp
  note r = StateLeaf_serialize_roundtrip [where packPubKey = example_packPubKey
      and unpackPubKey = example_unpackPubKey and parse = example_parse
      and stringify = example_stringify and base64url = example_base64url
      and base64url_decode = example_base64url_decode and j = "?j", OF h1 h2 h3 refl h5 h6]
  from r have "StateLeaf_serialize example_packPubKey example_stringify example_base64url
      example_leaf = example_base64url (example_stringify ?j)"
    by (rule conjunct1)
  then have "StateLeaf_serialize example_packPubKey example_stringify example_base64url
      example_leaf = ''eyJwdWJLZXkiOiJtYWNpcGsuMDUwNyIsInZvaWNlQ3JlZGl0QmFsYW5jZSI6IjY0In0''"
    using e by (rule trans)
  moreover from r have "StateLeaf_unserialize example_field_size example_unpackPubKey
      example_parse example_base64url_decode
      (StateLeaf_serialize example_packPubKey example_stringify example_base64url example_leaf)
      = Inr example_leaf"
    by (rule conjunct2)
  ultimately show ?thesis
    by (rule conjI)
qed

text \<open>
  C10. \<open>Command.equals\<close> does not compare the public keys. It reads
  \<open>newPubKey[0]\<close> and \<open>newPubKey[1]\<close> on the \<open>PubKey\<close> object, not on its
  coordinates; the four reads are \<open>undefined\<close> and \<open>undefined == undefined\<close>
  holds. Two commands that agree on the six other fields and differ in
  \<open>newPubKey\<close> are declared equal.
\<close>

theorem Command_equals_ignores_newPubKey:
  assumes "stateIndex c = stateIndex d" "voteOptionIndex c = voteOptionIndex d"
    "newVoteWeight c = newVoteWeight d" "nonce c = nonce d" "pollId c = pollId d"
    "salt c = salt d" "newPubKey c \<noteq> newPubKey d"
  shows "Command_equals c d \<and>
    PubKey_index (newPubKey c) 0 = Undefined \<and> PubKey_index (newPubKey d) 0 = Undefined \<and>
    PubKey_index (newPubKey c) 1 = Undefined \<and> PubKey_index (newPubKey d) 1 = Undefined"
  using assms by (simp add: Command_equals_def PubKey_index_def)

theorem Command_equals_ignores_newPubKey_witness:
  "newPubKey example_command \<noteq> newPubKey (example_command\<lparr>newPubKey := \<lparr>rawPubKey = [1, 2]\<rparr>\<rparr>) \<and>
   Command_equals example_command (example_command\<lparr>newPubKey := \<lparr>rawPubKey = [1, 2]\<rparr>\<rparr>)"
proof -
  have n: "newPubKey example_command
      \<noteq> newPubKey (example_command\<lparr>newPubKey := \<lparr>rawPubKey = [1, 2]\<rparr>\<rparr>)"
    by (simp add: example_command_def example_pubkey_def)
  from Command_equals_ignores_newPubKey
    [of example_command "example_command\<lparr>newPubKey := \<lparr>rawPubKey = [1, 2]\<rparr>\<rparr>"] n
  show ?thesis
    by simp
qed

text \<open>The comparison is exactly that of the six other fields.\<close>

lemma Command_equals_iff:
  "Command_equals c d \<longleftrightarrow>
     stateIndex c = stateIndex d \<and> voteOptionIndex c = voteOptionIndex d \<and>
     newVoteWeight c = newVoteWeight d \<and> nonce c = nonce d \<and> pollId c = pollId d \<and>
     salt c = salt d"
  by (simp add: Command_equals_def PubKey_index_def)

end
